theory Spec2Isabelle
  imports Complex_Main
begin

section \<open>Values of the Python program\<close>

text \<open>
  A Python \<open>str\<close> is a sequence of Unicode code points, so it is modelled as a list of
  natural numbers. \<open>ascii\<close> embeds an ASCII literal. A \<open>datetime\<close> is an integer
  count of microseconds (the resolution of \<open>datetime\<close>) from \<open>datetime.min\<close>, the
  start of year 1; every \<open>datetime.now()\<close> of one call is the instant \<open>now\<close> that
  the model takes as an argument.
\<close>

type_synonym str = "nat list"
type_synonym instant = int

definition ascii :: "string \<Rightarrow> str" where
  "ascii s = map of_char s"

text \<open>Python's \<open>str(n)\<close> of an integer, as the f-strings of the messages apply it.\<close>

function str_nat :: "nat \<Rightarrow> str" where
  "str_nat n = (if n < 10 then [48 + n] else str_nat (n div 10) @ [48 + n mod 10])"
  by pat_completeness auto
termination
  by (relation "measure id") auto

declare str_nat.simps [simp del]

definition str_int :: "int \<Rightarrow> str" where
  "str_int i = (if i < 0 then 45 # str_nat (nat (- i)) else str_nat (nat i))"

datatype py_error =
  KeyError | TypeError | ZeroDivisionError | AttributeError | OverflowError

text \<open>
  \<open>timedelta(minutes=m)\<close>: a \<open>timedelta\<close> is a count of microseconds between
  \<open>timedelta.min\<close> (-999999999 days) and \<open>timedelta.max\<close> (one microsecond less
  than 1000000000 days); outside this range the constructor raises \<open>OverflowError\<close>.
\<close>

definition minutes :: "int \<Rightarrow> py_error + int" where
  "minutes m =
     (if - 86399999913600000000 \<le> m * 60000000 \<and> m * 60000000 \<le> 86399999999999999999
      then Inr (m * 60000000) else Inl OverflowError)"

text \<open>
  \<open>datetime + timedelta\<close> raises \<open>OverflowError\<close> when the sum leaves the range from
  \<open>datetime.min\<close> to \<open>datetime.max\<close> (the last microsecond of year 9999).
\<close>

definition datetime_max :: instant where
  "datetime_max = 315537897599999999"

definition datetime_add :: "instant \<Rightarrow> int \<Rightarrow> py_error + instant" where
  "datetime_add t d =
     (if 0 \<le> t + d \<and> t + d \<le> datetime_max then Inr (t + d) else Inl OverflowError)"

text \<open>\<open>timedelta.total_seconds()\<close>.\<close>

definition total_seconds :: "int \<Rightarrow> real" where
  "total_seconds d = real_of_int d / 1000000"

section \<open>Configuration (config.yaml)\<close>

text \<open>
  \<open>config.get('users', {}).get('max_login_attempts', 5)\<close> falls back to the default
  when the section or the key is absent; \<open>config['quiz']\<close> raises \<open>KeyError\<close> when the
  section is absent.
\<close>

record users_section =
  max_login_attempts :: "int option"
  lockout_minutes :: "int option"

record quiz_section =
  points_per_question :: "int option"

record config =
  cfg_users :: "users_section option"
  cfg_quiz :: "quiz_section option"

definition get_max_login_attempts :: "config \<Rightarrow> int" where
  "get_max_login_attempts cfg =
     (case cfg_users cfg of None \<Rightarrow> 5
      | Some u \<Rightarrow> (case max_login_attempts u of None \<Rightarrow> 5 | Some m \<Rightarrow> m))"

definition get_lockout_minutes :: "config \<Rightarrow> int" where
  "get_lockout_minutes cfg =
     (case cfg_users cfg of None \<Rightarrow> 30
      | Some u \<Rightarrow> (case lockout_minutes u of None \<Rightarrow> 30 | Some m \<Rightarrow> m))"

definition get_points_per_question :: "config \<Rightarrow> py_error + int" where
  "get_points_per_question cfg =
     (case cfg_quiz cfg of None \<Rightarrow> Inl KeyError
      | Some q \<Rightarrow> (case points_per_question q of None \<Rightarrow> Inr 20 | Some p \<Rightarrow> Inr p))"

section \<open>The database (database\_manager.py, init\_database)\<close>

text \<open>
  Each table is the list of its rows in insertion order, which is the order of its
  AUTOINCREMENT key. The columns that SQLite fills with CURRENT\_TIMESTAMP
  (\<open>created_at\<close>, \<open>attempted_at\<close>) and the keys \<open>log_id\<close>, \<open>result_id\<close>,
  \<open>score_id\<close> are read by none of the functions below and are left out.
  \<open>users_seq\<close> is the AUTOINCREMENT counter of the users table.
\<close>

record user_row =
  user_id :: nat
  username :: str
  password_hash :: str
  email :: str
  full_name :: str
  role :: str
  status :: str
  failed_login_count :: int
  locked_until :: "instant option"
  last_login :: "instant option"

record login_log =
  log_user_id :: "nat option"
  log_username :: str
  log_status :: str
  log_ip_address :: str
  log_user_agent :: str
  log_error_message :: "str option"

record quiz_result =
  qr_user_id :: nat
  qr_course_id :: nat
  qr_question_id :: nat
  qr_selected_answers :: "str list"
  qr_is_correct :: bool
  qr_score_earned :: int

record course_score =
  cs_user_id :: nat
  cs_course_id :: nat
  cs_total_score :: int
  cs_max_score :: int
  cs_score_percent :: real
  cs_passed :: bool
  cs_completed_at :: instant

record database =
  users :: "user_row list"
  users_seq :: nat
  login_logs :: "login_log list"
  quiz_results :: "quiz_result list"
  course_scores :: "course_score list"

text \<open>
  \<open>init_database\<close> (l. 30-136) creates the tables, commits and closes the connection
  (l. 131-132). The two statements that follow in its body (l. 135-136) are the
  docstring and the \<open>return\<close> of a method \<open>hash_password\<close> whose \<open>def\<close> line is
  absent; the \<open>return\<close> reads an undefined name and raises \<open>NameError\<close>, after the
  commit. \<open>init_database\<close> below is the state of the tables at that commit.
\<close>

definition init_database :: database where
  "init_database =
     \<lparr>users = [], users_seq = 0, login_logs = [], quiz_results = [], course_scores = []\<rparr>"

text \<open>\<open>SELECT ... FROM users WHERE username = ?\<close> followed by \<open>fetchone()\<close>.\<close>

definition find_user :: "database \<Rightarrow> str \<Rightarrow> user_row option" where
  "find_user db uname = find (\<lambda>r. username r = uname) (users db)"

text \<open>\<open>UPDATE users SET ... WHERE user_id = ?\<close>.\<close>

definition update_users :: "nat \<Rightarrow> (user_row \<Rightarrow> user_row) \<Rightarrow> database \<Rightarrow> database" where
  "update_users uid f db =
     db\<lparr>users := map (\<lambda>r. if user_id r = uid then f r else r) (users db)\<rparr>"

section \<open>User management\<close>

text \<open>
  The class \<open>DatabaseManager\<close> defines no method \<open>hash_password\<close>: the statement
  \<open>return hashlib.sha256(password.encode()).hexdigest()\<close> at l. 136 belongs to
  \<open>init_database\<close>. The attribute lookup \<open>self.hash_password\<close> in \<open>add_user\<close> (l. 144)
  and in \<open>authenticate_user\<close> (l. 219) therefore raises \<open>AttributeError\<close>.

  The functions below take the result of this lookup as their first argument: \<open>None\<close>
  when the class has no such method, \<open>Some H\<close> for a class in which it is defined and
  computes the digest \<open>H\<close>. \<open>hash_password\<close> is the lookup in the class as it is.
\<close>

definition hash_password :: "(str \<Rightarrow> str) option" where
  "hash_password = None"

text \<open>
  \<open>add_user\<close> (l. 138-153). The call of \<open>self.hash_password\<close> precedes the INSERT, and
  the handler catches \<open>sqlite3.IntegrityError\<close> only, so the \<open>AttributeError\<close> leaves
  the function. With the method defined, the INSERT violates the constraint
  \<open>username TEXT UNIQUE\<close> when the name is present; sqlite3 raises IntegrityError before
  any row is written, and the handler returns False.
\<close>

definition add_user ::
  "(str \<Rightarrow> str) option \<Rightarrow> database \<Rightarrow> str \<Rightarrow> str \<Rightarrow> str \<Rightarrow> str \<Rightarrow> str
     \<Rightarrow> database \<times> (py_error + bool)" where
  "add_user hp db uname password em fname rl =
     (case hp of
        None \<Rightarrow> (db, Inl AttributeError)
      | Some H \<Rightarrow>
          let pw_hash = H password in
          if uname \<in> set (map username (users db)) then (db, Inr False)
          else
            let new_id = Suc (max (users_seq db) (fold max (map user_id (users db)) 0))
            in (db\<lparr>users := users db @
                     [\<lparr>user_id = new_id, username = uname, password_hash = pw_hash,
                       email = em, full_name = fname, role = rl, status = ascii ''active'',
                       failed_login_count = 0, locked_until = None, last_login = None\<rparr>],
                   users_seq := new_id\<rparr>, Inr True))"

section \<open>The login-attempt log\<close>

text \<open>
  \<open>_log_login_attempt\<close> (l. 545-562) opens a connection of its own
  (\<open>self.get_connection()\<close>), inserts one row into \<open>login_logs\<close> and commits. Every
  exception is caught and turned into the result False.

  \<open>authenticate_user\<close> calls it while its own connection is still open. sqlite3 begins
  a transaction at the first UPDATE of a connection and holds the write lock of the
  database file until \<open>commit()\<close>; an INSERT through a second connection then fails with
  \<open>OperationalError: database is locked\<close> once the timeout (5 s by default) has
  passed. The argument \<open>write_locked\<close> says whether the caller has such an uncommitted
  UPDATE at the moment of the call.
\<close>

definition log_login_attempt ::
  "bool \<Rightarrow> database \<Rightarrow> nat option \<Rightarrow> str \<Rightarrow> str \<Rightarrow> str \<Rightarrow> str \<Rightarrow> str option \<Rightarrow> database \<times> bool" where
  "log_login_attempt write_locked db uid uname st ip ua err =
     (if write_locked then (db, False)
      else (db\<lparr>login_logs := login_logs db @
                 [\<lparr>log_user_id = uid, log_username = uname, log_status = st,
                   log_ip_address = ip, log_user_agent = ua, log_error_message = err\<rparr>]\<rparr>,
            True))"

section \<open>Messages of authenticate\_user\<close>

text \<open>
  The literal parts of the f-strings, as code points, with a transliteration.
\<close>

definition msg_bad_credentials :: str where
  \<comment> \<open>"yuuzaa-mei matawa pasuwaado ga tadashiku arimasen": user name or password is not correct\<close>
  "msg_bad_credentials =
     [12518, 12540, 12470, 12540, 21517, 12414, 12383, 12399, 12497, 12473, 12527, 12540,
      12489, 12364, 27491, 12375, 12367, 12354, 12426, 12414, 12379, 12435]"

definition log_user_not_found :: str where
  \<comment> \<open>"yuuzaa ga mitsukarimasen": user not found\<close>
  "log_user_not_found =
     [12518, 12540, 12470, 12540, 12364, 35211, 12388, 12363, 12426, 12414, 12379, 12435]"

definition log_status_pre :: str where
  \<comment> \<open>"yuuzaa suteetasu: ": user status\<close>
  "log_status_pre = [12518, 12540, 12470, 12540, 12473, 12486, 12540, 12479, 12473, 58, 32]"

definition msg_status_pre :: str where
  \<comment> \<open>"kono akaunto wa ": this account is\<close>
  "msg_status_pre = [12371, 12398, 12450, 12459, 12454, 12531, 12488, 12399, 32]"

definition msg_status_post :: str where
  \<comment> \<open>" desu. kanrisha ni renraku shite kudasai.": contact the administrator\<close>
  "msg_status_post =
     [32, 12391, 12377, 12290, 31649, 29702, 32773, 12395, 36899, 32097, 12375, 12390, 12367,
      12384, 12373, 12356, 12290]"

definition log_locked_pre :: str where
  \<comment> \<open>"akaunto rokku-chuu (nokori": account locked (remaining\<close>
  "log_locked_pre =
     [12450, 12459, 12454, 12531, 12488, 12525, 12483, 12463, 20013, 65288, 27531, 12426]"

definition log_minutes_post :: str where
  \<comment> \<open>"fun)": minutes)\<close>
  "log_minutes_post = [20998, 65289]"

definition msg_locked_pre :: str where
  \<comment> \<open>"akaunto ga rokku sarete imasu.": the account is locked\<close>
  "msg_locked_pre =
     [12450, 12459, 12454, 12531, 12488, 12364, 12525, 12483, 12463, 12373, 12428, 12390,
      12356, 12414, 12377, 12290]"

definition msg_locked_post :: str where
  \<comment> \<open>"fun-go ni saido otameshi kudasai.": try again in ... minutes\<close>
  "msg_locked_post =
     [20998, 24460, 12395, 20877, 24230, 12362, 35430, 12375, 12367, 12384, 12373, 12356, 12290]"

definition log_lock_now_pre :: str where
  \<comment> \<open>"pasuwaado fuitchi - rokku-chuu (": password mismatch - locked (\<close>
  "log_lock_now_pre =
     [12497, 12473, 12527, 12540, 12489, 19981, 19968, 33268, 32, 45, 32, 12525, 12483, 12463,
      20013, 65288]"

definition msg_wrong_password :: str where
  \<comment> \<open>"pasuwaado ga tadashiku arimasen.": the password is not correct\<close>
  "msg_wrong_password =
     [12497, 12473, 12527, 12540, 12489, 12364, 27491, 12375, 12367, 12354, 12426, 12414,
      12379, 12435, 12290]"

definition msg_lock_now_mid :: str where
  \<comment> \<open>"kai shippai shita tame, akaunto ga": after ... failures the account\<close>
  "msg_lock_now_mid =
     [22238, 22833, 25943, 12375, 12383, 12383, 12417, 12289, 12450, 12459, 12454, 12531,
      12488, 12364]"

definition msg_lock_now_post :: str where
  \<comment> \<open>"funkan rokku saremashita.": has been locked for ... minutes\<close>
  "msg_lock_now_post =
     [20998, 38291, 12525, 12483, 12463, 12373, 12428, 12414, 12375, 12383, 12290]"

definition log_mismatch_pre :: str where
  \<comment> \<open>"pasuwaado fuitchi (nokori": password mismatch (remaining\<close>
  "log_mismatch_pre =
     [12497, 12473, 12527, 12540, 12489, 19981, 19968, 33268, 65288, 27531, 12426]"

definition log_mismatch_post :: str where
  \<comment> \<open>"kai)": times)\<close>
  "log_mismatch_post = [22238, 65289]"

definition msg_remaining_pre :: str where
  \<comment> \<open>"nokori ": remaining\<close>
  "msg_remaining_pre = [27531, 12426, 32]"

definition msg_remaining_post :: str where
  \<comment> \<open>" kai shikou dekimasu.": attempts can be made\<close>
  "msg_remaining_post = [32, 22238, 35430, 34892, 12391, 12365, 12414, 12377, 12290]"

definition msg_not_found :: str where
  "msg_not_found = msg_bad_credentials"

definition msg_disabled :: "str \<Rightarrow> str" where
  "msg_disabled st = msg_status_pre @ st @ msg_status_post"

definition msg_locked :: "int \<Rightarrow> str" where
  "msg_locked remaining_minutes = msg_locked_pre @ str_int remaining_minutes @ msg_locked_post"

definition msg_locked_just_now :: "int \<Rightarrow> int \<Rightarrow> str" where
  "msg_locked_just_now max_attempts lockout =
     msg_wrong_password @ str_int max_attempts @ msg_lock_now_mid @ str_int lockout
       @ msg_lock_now_post"

definition msg_invalid_secret :: "int \<Rightarrow> str" where
  "msg_invalid_secret remaining_attempts =
     msg_wrong_password @ msg_remaining_pre @ str_int remaining_attempts @ msg_remaining_post"

section \<open>authenticate\_user (database\_manager.py, l. 155-274)\<close>

datatype auth_result = Failed str | Success nat

text \<open>
  A call returns the database it leaves behind together with its result: the returned
  dictionary, or the exception that leaves the function.

  Check 3 of the source (l. 218-274): the password comparison, reached with the row
  \<open>r\<close> that was read at the start and the local \<open>failed_count\<close>. Its first statement
  (l. 219) looks \<open>self.hash_password\<close> up. Both UPDATE statements precede the call of
  \<open>_log_login_attempt\<close> and are committed after it.
\<close>

definition check_password ::
  "(str \<Rightarrow> str) option \<Rightarrow> config \<Rightarrow> instant \<Rightarrow> database \<Rightarrow> user_row \<Rightarrow> int
     \<Rightarrow> str \<Rightarrow> str \<Rightarrow> str \<Rightarrow> str \<Rightarrow> database \<times> (py_error + auth_result)" where
  "check_password hp cfg now db r failed_count uname password ip ua =
     (case hp of
        None \<Rightarrow> (db, Inl AttributeError)
      | Some H \<Rightarrow>
          let provided_hash = H password in
          if password_hash r \<noteq> provided_hash then
            let new_failed_count = failed_count + 1;
                max_attempts = get_max_login_attempts cfg;
                lockout = get_lockout_minutes cfg
            in if new_failed_count \<ge> max_attempts then
                 (case minutes lockout of
                    Inl e \<Rightarrow> (db, Inl e)
                  | Inr delta \<Rightarrow>
                      (case datetime_add now delta of
                         Inl e \<Rightarrow> (db, Inl e)
                       | Inr until \<Rightarrow>
                           let db1 = update_users (user_id r)
                                       (\<lambda>u. u\<lparr>failed_login_count := new_failed_count,
                                               locked_until := Some until\<rparr>) db
                           in (fst (log_login_attempt True db1 (Some (user_id r)) uname
                                      (ascii ''failed'') ip ua
                                      (Some (log_lock_now_pre @ str_int lockout
                                               @ log_minutes_post))),
                               Inr (Failed (msg_locked_just_now max_attempts lockout)))))
               else
                 let db1 = update_users (user_id r)
                             (\<lambda>u. u\<lparr>failed_login_count := new_failed_count\<rparr>) db;
                     remaining_attempts = max_attempts - new_failed_count
                 in (fst (log_login_attempt True db1 (Some (user_id r)) uname
                            (ascii ''failed'') ip ua
                            (Some (log_mismatch_pre @ str_int remaining_attempts
                                     @ log_mismatch_post))),
                     Inr (Failed (msg_invalid_secret remaining_attempts)))
          else
            let db1 = update_users (user_id r)
                        (\<lambda>u. u\<lparr>last_login := Some now, failed_login_count := 0,
                                locked_until := None\<rparr>) db
            in (fst (log_login_attempt True db1 (Some (user_id r)) uname (ascii ''success'')
                       ip ua None),
                Inr (Success (user_id r))))"

text \<open>
  The reset of an expired lock (l. 211-216); this UPDATE is committed at once, so it
  stays in the database when a later statement of the call raises.
\<close>

definition reset_lock :: "nat \<Rightarrow> database \<Rightarrow> database" where
  "reset_lock uid db =
     update_users uid (\<lambda>u. u\<lparr>failed_login_count := 0, locked_until := None\<rparr>) db"

definition authenticate_user ::
  "(str \<Rightarrow> str) option \<Rightarrow> config \<Rightarrow> instant \<Rightarrow> database \<Rightarrow> str \<Rightarrow> str \<Rightarrow> str \<Rightarrow> str
     \<Rightarrow> database \<times> (py_error + auth_result)" where
  "authenticate_user hp cfg now db uname password ip ua =
     (case find_user db uname of
        None \<Rightarrow>
          (fst (log_login_attempt False db None uname (ascii ''failed'') ip ua
                  (Some log_user_not_found)),
           Inr (Failed msg_not_found))
      | Some r \<Rightarrow>
          if status r \<noteq> ascii ''active'' then
            (fst (log_login_attempt False db (Some (user_id r)) uname (ascii ''failed'') ip ua
                    (Some (log_status_pre @ status r))),
             Inr (Failed (msg_disabled (status r))))
          else
            (case locked_until r of
               Some locked_until_dt \<Rightarrow>
                 if now < locked_until_dt then
                   let remaining_minutes = (locked_until_dt - now) div 60000000
                   in (fst (log_login_attempt False db (Some (user_id r)) uname (ascii ''failed'')
                              ip ua
                              (Some (log_locked_pre @ str_int remaining_minutes
                                       @ log_minutes_post))),
                       Inr (Failed (msg_locked remaining_minutes)))
                 else
                   check_password hp cfg now (reset_lock (user_id r) db) r 0
                     uname password ip ua
             | None \<Rightarrow>
                 check_password hp cfg now db r (failed_login_count r)
                   uname password ip ua))"

section \<open>Quiz results and course scores (database\_manager.py, l. 361-410)\<close>

text \<open>
  \<open>save_quiz_result\<close> opens its own connection, inserts one row and commits; no other
  connection of the process has a transaction open at that moment.
\<close>

definition save_quiz_result ::
  "database \<Rightarrow> nat \<Rightarrow> nat \<Rightarrow> nat \<Rightarrow> str list \<Rightarrow> bool \<Rightarrow> int \<Rightarrow> database \<times> bool" where
  "save_quiz_result db uid cid qid selected_answers is_correct score_earned =
     (db\<lparr>quiz_results := quiz_results db @
          [\<lparr>qr_user_id = uid, qr_course_id = cid, qr_question_id = qid,
            qr_selected_answers = selected_answers, qr_is_correct = is_correct,
            qr_score_earned = score_earned\<rparr>]\<rparr>, True)"

text \<open>
  Python's \<open>/\<close> on integers raises \<open>ZeroDivisionError\<close> for a zero divisor. The
  quotient is taken in the reals: the rounding of the float result is not modelled.
\<close>

definition py_truediv :: "int \<Rightarrow> int \<Rightarrow> py_error + real" where
  "py_truediv a b = (if b = 0 then Inl ZeroDivisionError else Inr (real_of_int a / real_of_int b))"

text \<open>
  \<open>(total_score / max_score * 100) if max_score > 0 else 0\<close>, as written in
  \<open>save_course_score\<close> (l. 385) and in \<open>submit_quiz\<close> (l. 475).
\<close>

definition score_percent :: "int \<Rightarrow> int \<Rightarrow> py_error + real" where
  "score_percent total_score max_score =
     (if max_score > 0 then
        (case py_truediv total_score max_score of
           Inl e \<Rightarrow> Inl e
         | Inr ratio \<Rightarrow> Inr (ratio * 100))
      else Inr 0)"

text \<open>
  \<open>save_course_score\<close>: \<open>INSERT OR REPLACE\<close> under the constraint
  \<open>UNIQUE(user_id, course_id)\<close> of \<open>course_scores\<close> deletes the rows that conflict
  with the new one and inserts it. The percentage is computed before the \<open>try\<close>, so an
  error there would reach the caller. The dictionary that the function returns is
  dropped by its only caller and is left out.
\<close>

definition save_course_score ::
  "database \<Rightarrow> nat \<Rightarrow> nat \<Rightarrow> int \<Rightarrow> int \<Rightarrow> int \<Rightarrow> instant \<Rightarrow> py_error + database" where
  "save_course_score db uid cid total_score max_score passing_score_percent now =
     (case score_percent total_score max_score of
        Inl e \<Rightarrow> Inl e
      | Inr percent \<Rightarrow>
          let passed = (percent \<ge> real_of_int passing_score_percent)
          in Inr (db\<lparr>course_scores :=
                     filter (\<lambda>r. \<not> (cs_user_id r = uid \<and> cs_course_id r = cid))
                       (course_scores db)
                     @ [\<lparr>cs_user_id = uid, cs_course_id = cid, cs_total_score = total_score,
                         cs_max_score = max_score, cs_score_percent = percent,
                         cs_passed = passed, cs_completed_at = now\<rparr>]\<rparr>))"

definition get_user_course_score :: "database \<Rightarrow> nat \<Rightarrow> nat \<Rightarrow> course_score option" where
  "get_user_course_score db uid cid =
     find (\<lambda>r. cs_user_id r = uid \<and> cs_course_id r = cid) (course_scores db)"

section \<open>The quiz (main\_azure\_sso.py)\<close>

text \<open>
  \<open>st.session_state\<close>, the fields that the quiz pages use. \<open>quiz_answers\<close> is a
  dictionary from question id to the list of selected letters, kept as an association
  list.
\<close>

record session_state =
  ss_user_id :: nat
  ss_email :: "str option"
  ss_full_name :: "str option"
  current_page :: str
  current_course_id :: nat
  current_course_name :: str
  quiz_time_limit :: int
  passing_score :: int
  quiz_started :: bool
  quiz_start_time :: "instant option"
  quiz_answers :: "(nat \<times> str list) list"
  result_score :: int
  result_max_score :: int
  result_percent :: real
  result_passed :: bool
  result_correct :: nat
  result_total :: nat

record question =
  q_id :: nat
  q_question :: str
  correct_answers :: "str list"
  multiple_choice :: bool

text \<open>
  The button "start the quiz" of \<open>show_learning_page\<close> (l. 370-375); the button
  "take the quiz again" of \<open>show_result_page\<close> (l. 556-561) runs the same four
  assignments.
\<close>

definition start_quiz :: "instant \<Rightarrow> session_state \<Rightarrow> session_state" where
  "start_quiz now ss =
     ss\<lparr>current_page := ascii ''quiz'', quiz_started := True,
        quiz_start_time := Some now, quiz_answers := []\<rparr>"

text \<open>
  The timer of \<open>show_quiz_page\<close> (l. 389-402). \<open>quiz_start_time\<close> is None until a
  quiz is started; subtracting None from a datetime raises \<open>TypeError\<close>.
\<close>

definition remaining_time :: "session_state \<Rightarrow> instant \<Rightarrow> py_error + real" where
  "remaining_time ss now =
     (case quiz_start_time ss of
        None \<Rightarrow> Inl TypeError
      | Some start \<Rightarrow>
          let elapsed_time = total_seconds (now - start)
          in Inr (real_of_int (quiz_time_limit ss) - elapsed_time))"

definition is_expired :: "session_state \<Rightarrow> instant \<Rightarrow> py_error + bool" where
  "is_expired ss now =
     (case remaining_time ss now of
        Inl e \<Rightarrow> Inl e
      | Inr remaining \<Rightarrow> Inr (\<not> remaining > 0))"

text \<open>
  The loop of \<open>submit_quiz\<close> (l. 452-472), with the accumulators \<open>total_score\<close>,
  \<open>max_score\<close> and \<open>correct_count\<close>.
\<close>

definition get_selected :: "session_state \<Rightarrow> question \<Rightarrow> str list" where
  "get_selected ss q = (case map_of (quiz_answers ss) (q_id q) of None \<Rightarrow> [] | Some s \<Rightarrow> s)"

text \<open>\<open>is_correct = set(selected) == set(correct_answers)\<close> (l. 458).\<close>

definition is_correct :: "str list \<Rightarrow> str list \<Rightarrow> bool" where
  "is_correct selected correct = (set selected = set correct)"

fun grade_questions ::
  "config \<Rightarrow> session_state \<Rightarrow> question list \<Rightarrow> database \<times> int \<times> int \<times> nat
     \<Rightarrow> py_error + (database \<times> int \<times> int \<times> nat)" where
  "grade_questions cfg ss [] acc = Inr acc"
| "grade_questions cfg ss (q # qs) (db, total_score, max_score, correct_count) =
     (case get_points_per_question cfg of
        Inl e \<Rightarrow> Inl e
      | Inr points \<Rightarrow>
          let selected = get_selected ss q;
              correct = is_correct selected (correct_answers q);
              db1 = fst (save_quiz_result db (ss_user_id ss) (current_course_id ss) (q_id q)
                           selected correct (if correct then points else 0))
          in grade_questions cfg ss qs
               (db1,
                if correct then total_score + points else total_score,
                max_score + points,
                if correct then correct_count + 1 else correct_count))"

text \<open>
  \<open>submit_quiz\<close> (l. 445-519). The e-mail notifications change neither the database
  nor the session state and are left out; \<open>st.rerun()\<close> ends the run of the script.
\<close>

definition submit_quiz ::
  "config \<Rightarrow> instant \<Rightarrow> question list \<Rightarrow> database \<times> session_state
     \<Rightarrow> py_error + (database \<times> session_state)" where
  "submit_quiz cfg now questions s =
     (case grade_questions cfg (snd s) questions (fst s, 0, 0, 0) of
        Inl e \<Rightarrow> Inl e
      | Inr (db1, total_score, max_score, correct_count) \<Rightarrow>
          (case score_percent total_score max_score of
             Inl e \<Rightarrow> Inl e
           | Inr percent \<Rightarrow>
               let ss = snd s;
                   passed = (percent \<ge> real_of_int (passing_score ss))
               in (case save_course_score db1 (ss_user_id ss) (current_course_id ss)
                          total_score max_score (passing_score ss) now of
                     Inl e \<Rightarrow> Inl e
                   | Inr db2 \<Rightarrow>
                       Inr (db2,
                            ss\<lparr>current_page := ascii ''result'',
                               result_score := total_score,
                               result_max_score := max_score,
                               result_percent := percent,
                               result_passed := passed,
                               result_correct := correct_count,
                               result_total := length questions\<rparr>))))"

section \<open>Reachable databases\<close>

text \<open>
  The databases that the functions above produce from the empty tables of
  \<open>init_database\<close>.
\<close>

inductive reachable :: "database \<Rightarrow> bool" where
  reach_init: "reachable init_database"
| reach_add_user:
    "reachable db \<Longrightarrow> reachable (fst (add_user hp db uname password em fname rl))"
| reach_authenticate_user:
    "reachable db \<Longrightarrow> reachable (fst (authenticate_user hp cfg now db uname password ip ua))"
| reach_save_quiz_result:
    "reachable db \<Longrightarrow> reachable (fst (save_quiz_result db uid cid qid selected ok pts))"
| reach_save_course_score:
    "reachable db \<Longrightarrow> save_course_score db uid cid total_score max_score passing now = Inr db'
       \<Longrightarrow> reachable db'"

section \<open>Sample data\<close>

text \<open>
  Concrete values on which the theorems below are instantiated. \<open>test_digest\<close> is the
  digest of the sample class in which \<open>hash_password\<close> is defined; the stored hashes
  of the sample users are digests of the password "secret".
\<close>

definition test_digest :: "str \<Rightarrow> str" where
  "test_digest p = rev p"

definition alice :: user_row where
  "alice =
     \<lparr>user_id = 1, username = ascii ''alice'', password_hash = test_digest (ascii ''secret''),
      email = [], full_name = [], role = ascii ''student'', status = ascii ''active'',
      failed_login_count = 2, locked_until = None, last_login = None\<rparr>"

definition cfg3 :: config where
  "cfg3 = \<lparr>cfg_users = Some \<lparr>max_login_attempts = Some 3, lockout_minutes = Some 30\<rparr>,
           cfg_quiz = Some \<lparr>points_per_question = Some 20\<rparr>\<rparr>"

definition carol :: user_row where
  "carol =
     \<lparr>user_id = 2, username = ascii ''carol'', password_hash = test_digest (ascii ''secret''),
      email = [], full_name = [], role = ascii ''student'', status = ascii ''suspended'',
      failed_login_count = 5, locked_until = Some 100, last_login = None\<rparr>"

definition dave :: user_row where
  "dave =
     \<lparr>user_id = 3, username = ascii ''dave'', password_hash = test_digest (ascii ''secret''),
      email = [], full_name = [], role = ascii ''student'', status = ascii ''active'',
      failed_login_count = 3, locked_until = Some 100, last_login = None\<rparr>"

definition erin :: user_row where
  "erin =
     \<lparr>user_id = 4, username = ascii ''erin'', password_hash = test_digest (ascii ''secret''),
      email = [], full_name = [], role = ascii ''student'', status = ascii ''active'',
      failed_login_count = 0, locked_until = None, last_login = None\<rparr>"

definition db_sample :: database where
  "db_sample = init_database\<lparr>users := [alice, carol, dave, erin], users_seq := 4\<rparr>"

definition q1 :: question where
  "q1 = \<lparr>q_id = 1, q_question = ascii ''first'', correct_answers = [ascii ''A''],
          multiple_choice = False\<rparr>"

definition q2 :: question where
  "q2 = \<lparr>q_id = 2, q_question = ascii ''second'',
          correct_answers = [ascii ''A'', ascii ''B'', ascii ''C''], multiple_choice = True\<rparr>"

definition ss_sample :: session_state where
  "ss_sample =
     \<lparr>ss_user_id = 4, ss_email = None, ss_full_name = None, current_page = ascii ''quiz'',
      current_course_id = 1, current_course_name = ascii ''course'', quiz_time_limit = 300,
      passing_score = 70, quiz_started = True, quiz_start_time = Some 0,
      quiz_answers = [(1, [ascii ''A'']), (2, [ascii ''C'', ascii ''A''])],
      result_score = 0, result_max_score = 0, result_percent = 0, result_passed = False,
      result_correct = 0, result_total = 0\<rparr>"

definition db_scored :: database where
  "db_scored =
     init_database\<lparr>course_scores :=
       [\<lparr>cs_user_id = 4, cs_course_id = 1, cs_total_score = 20, cs_max_score = 40,
         cs_score_percent = 50, cs_passed = False, cs_completed_at = 5000\<rparr>]\<rparr>"

definition row1 :: quiz_result where
  "row1 = \<lparr>qr_user_id = 4, qr_course_id = 1, qr_question_id = 1,
            qr_selected_answers = [ascii ''A''], qr_is_correct = True, qr_score_earned = 20\<rparr>"

definition row2 :: quiz_result where
  "row2 = \<lparr>qr_user_id = 4, qr_course_id = 1, qr_question_id = 2,
            qr_selected_answers = [ascii ''C'', ascii ''A''], qr_is_correct = False,
            qr_score_earned = 0\<rparr>"

definition ss_submitted :: session_state where
  "ss_submitted =
     ss_sample\<lparr>current_page := ascii ''result'', result_score := 20, result_max_score := 40,
               result_percent := 50, result_passed := False, result_correct := 1,
               result_total := 2\<rparr>"

definition db_submitted :: database where
  "db_submitted =
     db_sample\<lparr>quiz_results := [row1, row2],
               course_scores :=
                 [\<lparr>cs_user_id = 4, cs_course_id = 1, cs_total_score = 20, cs_max_score = 40,
                   cs_score_percent = 50, cs_passed = False, cs_completed_at = 5000\<rparr>]\<rparr>"

definition db_resubmitted :: database where
  "db_resubmitted =
     db_sample\<lparr>quiz_results := [row1, row2, row1, row2],
               course_scores :=
                 [\<lparr>cs_user_id = 4, cs_course_id = 1, cs_total_score = 20, cs_max_score = 40,
                   cs_score_percent = 50, cs_passed = False, cs_completed_at = 9000\<rparr>]\<rparr>"

section \<open>Auxiliary facts\<close>



lemma find_after_upsert:
  "P x \<Longrightarrow> find P (filter (\<lambda>r. \<not> P r) rows @ [x]) = Some x"
  by (induction rows) auto

lemma sample_users:
  "find_user db_sample (ascii ''alice'') = Some alice"
  "find_user db_sample (ascii ''carol'') = Some carol"
  "find_user db_sample (ascii ''dave'') = Some dave"
  "find_user db_sample (ascii ''erin'') = Some erin"
  "find_user db_sample (ascii ''bob'') = None"
  by (simp_all add: find_user_def db_sample_def init_database_def alice_def carol_def dave_def
        erin_def ascii_def)

section \<open>add\_user\<close>

text \<open>
  In the class as it is, every call of \<open>add_user\<close> ends in \<open>AttributeError\<close> and writes
  nothing. In a class that defines the method, a user name already present is
  answered with False and the database is left as it was.
\<close>

lemma add_user_as_listed:
  "add_user hash_password db uname password em fname rl = (db, Inl AttributeError)"
  by (simp add: add_user_def hash_password_def)

lemma add_user_with_method:
  "uname \<in> username ` set (users db) \<Longrightarrow>
   add_user (Some H) db uname password em fname rl = (db, Inr False)"
  by (simp add: add_user_def Let_def)

text \<open>
  C10. The claim (a user name already present: \<open>add_user\<close> returns False and leaves
  the users table unchanged) against the code: for the user name "alice" of the sample
  database the call raises \<open>AttributeError\<close> at l. 144; it returns neither False nor
  True. The table is unchanged.
\<close>

theorem add_user_existing_name_raises:
  "ascii ''alice'' \<in> username ` set (users db_sample)
   \<and> add_user hash_password db_sample (ascii ''alice'') (ascii ''other'') [] [] (ascii ''student'')
       = (db_sample, Inl AttributeError)
   \<and> add_user (Some test_digest) db_sample (ascii ''alice'') (ascii ''other'') [] []
         (ascii ''student'')
       = (db_sample, Inr False)"
proof -
  have present: "ascii ''alice'' \<in> username ` set (users db_sample)"
    by (simp add: db_sample_def alice_def init_database_def)
  from present add_user_as_listed add_user_with_method [OF present] show ?thesis
    by (intro conjI) simp_all
qed

section \<open>authenticate\_user: the password check\<close>

text \<open>
  In the class as it is, the password check raises \<open>AttributeError\<close> at its first
  statement and leaves the database as it received it.
\<close>

lemma check_password_as_listed:
  "check_password hash_password cfg now db r n uname password ip ua = (db, Inl AttributeError)"
  by (simp add: check_password_def hash_password_def)

text \<open>
  The branches that return before the password check do not depend on the method. An
  active account whose lock has not run out is answered with the message "locked, try
  again in n minutes", n the whole minutes left, and its row is not touched.
\<close>

lemma authenticate_user_while_locked:
  assumes "find_user db uname = Some r" "status r = ascii ''active''"
      and "locked_until r = Some lu" "now < lu"
  shows "snd (authenticate_user hp cfg now db uname password ip ua) =
           Inr (Failed (msg_locked ((lu - now) div 60000000)))
         \<and> users (fst (authenticate_user hp cfg now db uname password ip ua)) = users db"
  using assms by (simp add: authenticate_user_def Let_def log_login_attempt_def)


lemma authenticate_user_unlocked_as_listed:
  assumes "find_user db uname = Some r" "status r = ascii ''active''"
      and "locked_until r = None"
  shows "authenticate_user hash_password cfg now db uname password ip ua
           = (db, Inl AttributeError)"
  using assms by (simp add: authenticate_user_def check_password_as_listed)

text \<open>
  C1. The claim (a wrong password that raises the failure count to
  \<open>max_login_attempts\<close> locks the account and is answered with "locked for
  \<open>lockout_minutes\<close> minutes") against the code: "alice" is active, not locked and
  has 2 failures, 3 attempts are allowed. The call with a wrong password raises
  \<open>AttributeError\<close> at l. 219; the row keeps its 2 failures and no lock. In the sample
  class that defines the method the same call is answered with the lock message.
\<close>

theorem wrong_password_sets_no_lock:
  "find_user db_sample (ascii ''alice'') = Some alice
   \<and> status alice = ascii ''active'' \<and> locked_until alice = None
   \<and> failed_login_count alice = 2 \<and> get_max_login_attempts cfg3 = 3
   \<and> authenticate_user hash_password cfg3 1000 db_sample (ascii ''alice'') (ascii ''wrong'') [] []
       = (db_sample, Inl AttributeError)
   \<and> snd (authenticate_user (Some test_digest) cfg3 1000 db_sample (ascii ''alice'')
             (ascii ''wrong'') [] [])
       = Inr (Failed (msg_locked_just_now 3 30))"
proof -
  have facts: "status alice = ascii ''active''" "locked_until alice = None"
    "failed_login_count alice = 2" "get_max_login_attempts cfg3 = 3"
    "get_lockout_minutes cfg3 = 30"
    "password_hash alice \<noteq> test_digest (ascii ''wrong'')"
    by (simp_all add: alice_def cfg3_def get_max_login_attempts_def get_lockout_minutes_def
          test_digest_def ascii_def)
  have listed: "authenticate_user hash_password cfg3 1000 db_sample (ascii ''alice'')
                  (ascii ''wrong'') [] [] = (db_sample, Inl AttributeError)"
    using sample_users(1) facts(1,2) by (rule authenticate_user_unlocked_as_listed)
  have defined: "snd (authenticate_user (Some test_digest) cfg3 1000 db_sample (ascii ''alice'')
             (ascii ''wrong'') [] []) = Inr (Failed (msg_locked_just_now 3 30))"
    using sample_users(1) facts
    by (simp add: authenticate_user_def check_password_def Let_def log_login_attempt_def
          minutes_def datetime_add_def datetime_max_def)
  show ?thesis
    by (intro conjI sample_users(1) facts(1-4) listed defined)
qed


section \<open>authenticate\_user: messages and the attempt log\<close>

text \<open>
  The f-strings of l. 194, 207, 243 and 257 with their numbers filled in, code point by
  code point.
\<close>

lemma sample_messages:
  "msg_locked 29 =
      [12450, 12459, 12454, 12531, 12488, 12364, 12525, 12483, 12463, 12373, 12428, 12390,
      12356, 12414, 12377, 12290, 50, 57, 20998, 24460, 12395, 20877, 24230, 12362, 35430,
      12375, 12367, 12384, 12373, 12356, 12290]"
  "msg_locked_just_now 3 30 =
      [12497, 12473, 12527, 12540, 12489, 12364, 27491, 12375, 12367, 12354, 12426, 12414,
      12379, 12435, 12290, 51, 22238, 22833, 25943, 12375, 12383, 12383, 12417, 12289, 12450,
      12459, 12454, 12531, 12488, 12364, 51, 48, 20998, 38291, 12525, 12483, 12463, 12373,
      12428, 12414, 12375, 12383, 12290]"
  "msg_invalid_secret 2 =
      [12497, 12473, 12527, 12540, 12489, 12364, 27491, 12375, 12367, 12354, 12426, 12414,
      12379, 12435, 12290, 27531, 12426, 32, 50, 32, 22238, 35430, 34892, 12391, 12365, 12414,
      12377, 12290]"
  "msg_disabled (ascii ''suspended'') =
      [12371, 12398, 12450, 12459, 12454, 12531, 12488, 12399, 32, 115, 117, 115, 112, 101,
      110, 100, 101, 100, 32, 12391, 12377, 12290, 31649, 29702, 32773, 12395, 36899, 32097,
      12375, 12390, 12367, 12384, 12373, 12356, 12290]"
  by (simp_all add: msg_locked_def msg_locked_just_now_def msg_invalid_secret_def
        msg_disabled_def msg_locked_pre_def msg_locked_post_def msg_wrong_password_def
        msg_lock_now_mid_def msg_lock_now_post_def msg_remaining_pre_def
        msg_remaining_post_def msg_status_pre_def msg_status_post_def str_int_def
        str_nat.simps ascii_def)

text \<open>
  The message for an unknown user starts with another character than the messages of
  the wrong-password branches, whatever numbers these carry.
\<close>

lemma not_found_message_differs:
  "msg_not_found \<noteq> msg_invalid_secret n"
  "msg_not_found \<noteq> msg_locked_just_now a b"
  by (simp_all add: msg_not_found_def msg_bad_credentials_def msg_invalid_secret_def
        msg_locked_just_now_def msg_wrong_password_def)

text \<open>
  The number of rows that one call adds to \<open>login_logs\<close>: one on the branches that
  return before any UPDATE (unknown user, status not active, account locked), none on
  the branches of the password check, with or without the method.
\<close>

lemma login_logs_check_password:
  "login_logs (fst (check_password hp cfg now db r n uname password ip ua)) = login_logs db"
  by (simp add: check_password_def Let_def log_login_attempt_def update_users_def
        split: option.splits sum.splits)

lemma login_logs_authenticate_user:
  "length (login_logs (fst (authenticate_user hp cfg now db uname password ip ua)))
     = length (login_logs db)
       + (case find_user db uname of
            None \<Rightarrow> 1
          | Some r \<Rightarrow>
              if status r \<noteq> ascii ''active'' then 1
              else (case locked_until r of
                      None \<Rightarrow> 0
                    | Some lu \<Rightarrow> if now < lu then 1 else 0))"
  by (simp add: authenticate_user_def login_logs_check_password log_login_attempt_def
        reset_lock_def update_users_def Let_def split: option.splits)

lemma sample_wrong_password_with_method:
  "authenticate_user (Some test_digest) cfg3 1000 db_sample (ascii ''erin'') (ascii ''guess'') [] []
     = (update_users 4 (\<lambda>u. u\<lparr>failed_login_count := 1\<rparr>) db_sample,
        Inr (Failed (msg_invalid_secret 2)))"
proof -
  have e: "status erin = ascii ''active''" "locked_until erin = None"
    "failed_login_count erin = 0" "user_id erin = 4"
    "password_hash erin \<noteq> test_digest (ascii ''guess'')"
    "get_max_login_attempts cfg3 = 3"
    by (simp_all add: erin_def cfg3_def get_max_login_attempts_def test_digest_def ascii_def)
  show ?thesis
    using sample_users(4) e
    by (simp add: authenticate_user_def check_password_def Let_def log_login_attempt_def)
qed

lemma sample_wrong_password_as_listed:
  "authenticate_user hash_password cfg3 1000 db_sample (ascii ''erin'') (ascii ''guess'') [] []
     = (db_sample, Inl AttributeError)"
proof -
  have e: "status erin = ascii ''active''" "locked_until erin = None"
    by (simp_all add: erin_def)
  from sample_users(4) e show ?thesis
    by (rule authenticate_user_unlocked_as_listed)
qed

text \<open>
  C2. The message for an unknown user name and the answer for a known, active,
  unlocked user with a wrong password are compared on the sample database. The first
  is the text "user name or password is not correct", with or without the method.
  The second is "the password is not correct. 2 attempts remain" in the class that
  defines the method, a different text, and \<open>AttributeError\<close> in the class as it is,
  no message at all.
\<close>

theorem failure_message_reveals_account:
  "find_user db_sample (ascii ''bob'') = None
   \<and> snd (authenticate_user (Some test_digest) cfg3 1000 db_sample (ascii ''bob'')
             (ascii ''guess'') [] [])
       = Inr (Failed msg_bad_credentials)
   \<and> snd (authenticate_user hash_password cfg3 1000 db_sample (ascii ''bob'')
             (ascii ''guess'') [] [])
       = Inr (Failed msg_bad_credentials)
   \<and> find_user db_sample (ascii ''erin'') = Some erin
   \<and> snd (authenticate_user (Some test_digest) cfg3 1000 db_sample (ascii ''erin'')
             (ascii ''guess'') [] [])
       = Inr (Failed (msg_invalid_secret 2))
   \<and> snd (authenticate_user hash_password cfg3 1000 db_sample (ascii ''erin'')
             (ascii ''guess'') [] [])
       = Inl AttributeError
   \<and> msg_bad_credentials \<noteq> msg_invalid_secret 2"
proof -
  have unknown: "\<And>hp. snd (authenticate_user hp cfg3 1000 db_sample (ascii ''bob'')
                           (ascii ''guess'') [] []) = Inr (Failed msg_bad_credentials)"
    using sample_users(5) by (simp add: authenticate_user_def msg_not_found_def)
  have known: "snd (authenticate_user (Some test_digest) cfg3 1000 db_sample (ascii ''erin'')
             (ascii ''guess'') [] []) = Inr (Failed (msg_invalid_secret 2))"
    by (simp add: sample_wrong_password_with_method)
  have listed: "snd (authenticate_user hash_password cfg3 1000 db_sample (ascii ''erin'')
             (ascii ''guess'') [] []) = Inl AttributeError"
    by (simp add: sample_wrong_password_as_listed)
  have differ: "msg_bad_credentials \<noteq> msg_invalid_secret 2"
    by (simp add: msg_bad_credentials_def msg_invalid_secret_def msg_wrong_password_def)
  show ?thesis
    by (intro conjI sample_users(5) sample_users(4) unknown known listed differ)
qed

text \<open>
  C9. A wrong password for a known, active, unlocked user. In the class that defines
  the method, the UPDATE of the failure count is executed on the connection of
  \<open>authenticate_user\<close> before \<open>_log_login_attempt\<close> is called and is committed after
  it, so the INSERT of the log row fails and the login log is left as it was. In the
  class as it is, the call raises before it reaches the logger, and the login log is
  left as it was as well.
\<close>

theorem wrong_password_attempt_not_logged:
  "find_user db_sample (ascii ''erin'') = Some erin
   \<and> snd (authenticate_user (Some test_digest) cfg3 1000 db_sample (ascii ''erin'')
             (ascii ''guess'') [] [])
       = Inr (Failed (msg_invalid_secret 2))
   \<and> login_logs (fst (authenticate_user (Some test_digest) cfg3 1000 db_sample (ascii ''erin'')
                        (ascii ''guess'') [] [])) = login_logs db_sample
   \<and> snd (authenticate_user hash_password cfg3 1000 db_sample (ascii ''erin'')
             (ascii ''guess'') [] [])
       = Inl AttributeError
   \<and> login_logs (fst (authenticate_user hash_password cfg3 1000 db_sample (ascii ''erin'')
                        (ascii ''guess'') [] [])) = login_logs db_sample"
  by (intro conjI sample_users(4))
     (simp_all add: sample_wrong_password_with_method sample_wrong_password_as_listed
        update_users_def)

section \<open>Scoring and the stored results\<close>

lemma grade_questions_result:
  assumes "get_points_per_question cfg = Inr p"
  shows "grade_questions cfg ss qs (db, total_score, max_score, correct_count) =
     Inr (db\<lparr>quiz_results := quiz_results db @
              map (\<lambda>q. \<lparr>qr_user_id = ss_user_id ss, qr_course_id = current_course_id ss,
                         qr_question_id = q_id q, qr_selected_answers = get_selected ss q,
                         qr_is_correct = (set (get_selected ss q) = set (correct_answers q)),
                         qr_score_earned =
                           (if set (get_selected ss q) = set (correct_answers q) then p else 0)\<rparr>)
                qs\<rparr>,
          total_score + p * int (length (filter (\<lambda>q. set (get_selected ss q) = set (correct_answers q)) qs)),
          max_score + p * int (length qs),
          correct_count + length (filter (\<lambda>q. set (get_selected ss q) = set (correct_answers q)) qs))"
  using assms
proof (induction qs arbitrary: db total_score max_score correct_count)
  case Nil
  then show ?case by simp
next
  case (Cons q qs)
  then show ?case
    by (simp add: Let_def save_quiz_result_def is_correct_def algebra_simps)
qed

lemma score_percent_value:
  "score_percent t m = Inr (if m > 0 then real_of_int t / real_of_int m * 100 else 0)"
  by (simp add: score_percent_def py_truediv_def)

lemma save_course_score_value:
  "save_course_score db uid cid t m p now =
     Inr (db\<lparr>course_scores :=
            filter (\<lambda>r. \<not> (cs_user_id r = uid \<and> cs_course_id r = cid)) (course_scores db)
            @ [\<lparr>cs_user_id = uid, cs_course_id = cid, cs_total_score = t, cs_max_score = m,
                cs_score_percent = (if m > 0 then real_of_int t / real_of_int m * 100 else 0),
                cs_passed = ((if m > 0 then real_of_int t / real_of_int m * 100 else 0)
                               \<ge> real_of_int p),
                cs_completed_at = now\<rparr>]\<rparr>)"
  by (simp add: save_course_score_def score_percent_value Let_def)

lemma submit_quiz_value:
  assumes "get_points_per_question cfg = Inr p \<or> qs = []"
  shows "submit_quiz cfg now qs (db, ss) =
     Inr (db\<lparr>quiz_results := quiz_results db @
              map (\<lambda>q. \<lparr>qr_user_id = ss_user_id ss, qr_course_id = current_course_id ss,
                         qr_question_id = q_id q, qr_selected_answers = get_selected ss q,
                         qr_is_correct = (set (get_selected ss q) = set (correct_answers q)),
                         qr_score_earned =
                           (if set (get_selected ss q) = set (correct_answers q) then p else 0)\<rparr>)
                qs,
             course_scores :=
               filter (\<lambda>r. \<not> (cs_user_id r = ss_user_id ss \<and> cs_course_id r = current_course_id ss))
                 (course_scores db)
               @ [\<lparr>cs_user_id = ss_user_id ss, cs_course_id = current_course_id ss,
                   cs_total_score = p * int (length (filter (\<lambda>q. set (get_selected ss q) = set (correct_answers q)) qs)),
                   cs_max_score = p * int (length qs),
                   cs_score_percent =
                     (if p * int (length qs) > 0
                      then real_of_int (p * int (length (filter (\<lambda>q. set (get_selected ss q) = set (correct_answers q)) qs)))
                             / real_of_int (p * int (length qs)) * 100
                      else 0),
                   cs_passed =
                     ((if p * int (length qs) > 0
                       then real_of_int (p * int (length (filter (\<lambda>q. set (get_selected ss q) = set (correct_answers q)) qs)))
                              / real_of_int (p * int (length qs)) * 100
                       else 0) \<ge> real_of_int (passing_score ss)),
                   cs_completed_at = now\<rparr>]\<rparr>,
          ss\<lparr>current_page := ascii ''result'',
             result_score := p * int (length (filter (\<lambda>q. set (get_selected ss q) = set (correct_answers q)) qs)),
             result_max_score := p * int (length qs),
             result_percent :=
               (if p * int (length qs) > 0
                then real_of_int (p * int (length (filter (\<lambda>q. set (get_selected ss q) = set (correct_answers q)) qs)))
                       / real_of_int (p * int (length qs)) * 100
                else 0),
             result_passed :=
               ((if p * int (length qs) > 0
                 then real_of_int (p * int (length (filter (\<lambda>q. set (get_selected ss q) = set (correct_answers q)) qs)))
                        / real_of_int (p * int (length qs)) * 100
                 else 0) \<ge> real_of_int (passing_score ss)),
             result_correct := length (filter (\<lambda>q. set (get_selected ss q) = set (correct_answers q)) qs),
             result_total := length qs\<rparr>)"
  using assms
proof
  assume "get_points_per_question cfg = Inr p"
  then show ?thesis
    by (simp add: submit_quiz_def grade_questions_result score_percent_value
          save_course_score_value Let_def)
next
  assume "qs = []"
  then show ?thesis
    by (simp add: submit_quiz_def score_percent_value save_course_score_value Let_def)
qed

lemma grade_questions_KeyError:
  "get_points_per_question cfg = Inl e \<Longrightarrow> grade_questions cfg ss (q # qs) acc = Inl e"
  by (cases acc) simp

lemma get_points_per_question_error:
  "get_points_per_question cfg = Inl e \<Longrightarrow> e = KeyError"
  by (auto simp: get_points_per_question_def split: option.splits)

lemma submit_quiz_error:
  assumes "submit_quiz cfg now qs s = Inl e"
  shows "e = KeyError \<and> qs \<noteq> [] \<and> get_points_per_question cfg = Inl KeyError"
proof (cases "get_points_per_question cfg")
  case (Inr p)
  with submit_quiz_value [of cfg p qs now "fst s" "snd s"] assms show ?thesis by simp
next
  case (Inl e')
  then have k: "e' = KeyError" by (rule get_points_per_question_error)
  show ?thesis
  proof (cases qs)
    case Nil
    with submit_quiz_value [of cfg 0 qs now "fst s" "snd s"] assms show ?thesis by simp
  next
    case (Cons q qs')
    with Inl k assms show ?thesis
      by (simp add: submit_quiz_def grade_questions_KeyError)
  qed
qed

section \<open>The quiz timer\<close>

text \<open>
  C4. For a session with a start instant and instants \<open>now1 \<le> now2\<close>, the remaining
  time is \<open>quiz_time_limit - (now - quiz_start_time)\<close> in seconds, it does not grow
  from \<open>now1\<close> to \<open>now2\<close>, the session is expired exactly when the remaining time is
  at most 0, and a session expired at \<open>now1\<close> is expired at \<open>now2\<close>.
\<close>

theorem remaining_time_monotone:
  assumes "quiz_start_time ss = Some start" and "now1 \<le> now2"
  shows "remaining_time ss now1
           = Inr (real_of_int (quiz_time_limit ss) - real_of_int (now1 - start) / 1000000)
       \<and> remaining_time ss now2
           = Inr (real_of_int (quiz_time_limit ss) - real_of_int (now2 - start) / 1000000)
       \<and> real_of_int (quiz_time_limit ss) - real_of_int (now2 - start) / 1000000
           \<le> real_of_int (quiz_time_limit ss) - real_of_int (now1 - start) / 1000000
       \<and> is_expired ss now1
           = Inr (real_of_int (quiz_time_limit ss) - real_of_int (now1 - start) / 1000000 \<le> 0)
       \<and> (is_expired ss now1 = Inr True \<longrightarrow> is_expired ss now2 = Inr True)"
  using assms
  by (auto simp: remaining_time_def is_expired_def total_seconds_def Let_def
        divide_right_mono not_less)

theorem remaining_time_monotone_witness:
  "quiz_start_time ss_sample = Some 0 \<and> (300000000::int) \<le> 301000000
   \<and> remaining_time ss_sample 300000000 = Inr 0
   \<and> remaining_time ss_sample 301000000 = Inr (- 1)
   \<and> is_expired ss_sample 300000000 = Inr True
   \<and> is_expired ss_sample 301000000 = Inr True
   \<and> is_expired ss_sample 299000000 = Inr False"
proof -
  have start: "quiz_start_time ss_sample = Some 0" by (simp add: ss_sample_def)
  have le: "(300000000::int) \<le> 301000000" by simp
  have lim: "quiz_time_limit ss_sample = 300" by (simp add: ss_sample_def)
  have early: "is_expired ss_sample 299000000 = Inr False"
    by (simp add: is_expired_def remaining_time_def total_seconds_def ss_sample_def)
  from remaining_time_monotone [OF start le] start early show ?thesis
    by (simp add: lim)
qed

section \<open>The course-score table\<close>

lemma course_scores_add_user:
  "course_scores (fst (add_user hp db uname password em fname rl)) = course_scores db"
  by (simp add: add_user_def Let_def split: option.splits)

lemma course_scores_authenticate_user:
  "course_scores (fst (authenticate_user hp cfg now db uname password ip ua)) = course_scores db"
  by (simp add: authenticate_user_def check_password_def log_login_attempt_def update_users_def
        reset_lock_def Let_def split: option.splits sum.splits)

lemma course_scores_save_quiz_result:
  "course_scores (fst (save_quiz_result db uid cid qid selected ok pts)) = course_scores db"
  by (simp add: save_quiz_result_def)

lemma distinct_keys_upsert:
  assumes "distinct (map (\<lambda>r. (cs_user_id r, cs_course_id r)) rows)"
      and "cs_user_id new = uid" "cs_course_id new = cid"
  shows "distinct (map (\<lambda>r. (cs_user_id r, cs_course_id r))
                    (filter (\<lambda>r. \<not> (cs_user_id r = uid \<and> cs_course_id r = cid)) rows @ [new]))"
  using assms by (auto simp: distinct_map_filter)

lemma reachable_distinct_keys:
  "reachable db \<Longrightarrow> distinct (map (\<lambda>r. (cs_user_id r, cs_course_id r)) (course_scores db))"
proof (induction rule: reachable.induct)
  case reach_init
  show ?case by (simp add: init_database_def)
next
  case (reach_add_user db hp uname password em fname rl)
  then show ?case by (simp add: course_scores_add_user)
next
  case (reach_authenticate_user db hp cfg now uname password ip ua)
  then show ?case by (simp add: course_scores_authenticate_user)
next
  case (reach_save_quiz_result db uid cid qid selected ok pts)
  then show ?case by (simp add: course_scores_save_quiz_result)
next
  case (reach_save_course_score db uid cid total_score max_score passing now db')
  from reach_save_course_score.hyps(2) reach_save_course_score.IH show ?case
    by (auto simp: save_course_score_value distinct_map_filter)
qed

lemma distinct_keys_filter_le1:
  assumes "distinct (map (\<lambda>r. (cs_user_id r, cs_course_id r)) rows)"
  shows "length (filter (\<lambda>r. cs_user_id r = u \<and> cs_course_id r = c) rows) \<le> 1"
  using assms
proof (induction rows)
  case Nil
  show ?case by simp
next
  case (Cons r rows)
  show ?case
  proof (cases "cs_user_id r = u \<and> cs_course_id r = c")
    case True
    with Cons.prems have "\<forall>x\<in>set rows. \<not> (cs_user_id x = u \<and> cs_course_id x = c)"
      by (auto simp: image_iff)
    then have "filter (\<lambda>r. cs_user_id r = u \<and> cs_course_id r = c) rows = []"
      by (simp add: filter_empty_conv)
    with True show ?thesis by simp
  next
    case False
    with Cons show ?thesis by auto
  qed
qed

text \<open>
  C8. In every database reached from the empty tables, \<open>course_scores\<close> holds at most
  one row for each pair of user and course; \<open>save_course_score\<close> returns a database
  that is reachable again, in which the pair has exactly one row, the row of the new
  submission, and the rows of the other pairs are as before.
\<close>

theorem course_scores_one_row_per_pair:
  assumes "reachable db"
  shows "(\<forall>u c. length (filter (\<lambda>r. cs_user_id r = u \<and> cs_course_id r = c) (course_scores db)) \<le> 1)
       \<and> (\<exists>db'. save_course_score db uid cid t m p now = Inr db' \<and> reachable db'
            \<and> filter (\<lambda>r. cs_user_id r = uid \<and> cs_course_id r = cid) (course_scores db')
                = [\<lparr>cs_user_id = uid, cs_course_id = cid, cs_total_score = t, cs_max_score = m,
                    cs_score_percent = (if m > 0 then real_of_int t / real_of_int m * 100 else 0),
                    cs_passed = ((if m > 0 then real_of_int t / real_of_int m * 100 else 0)
                                   \<ge> real_of_int p),
                    cs_completed_at = now\<rparr>]
            \<and> (\<forall>u c. (u, c) \<noteq> (uid, cid) \<longrightarrow>
                  filter (\<lambda>r. cs_user_id r = u \<and> cs_course_id r = c) (course_scores db')
                  = filter (\<lambda>r. cs_user_id r = u \<and> cs_course_id r = c) (course_scores db)))"
proof (intro conjI allI)
  fix u c
  show "length (filter (\<lambda>r. cs_user_id r = u \<and> cs_course_id r = c) (course_scores db)) \<le> 1"
    using assms by (intro distinct_keys_filter_le1 reachable_distinct_keys)
next
  let ?new = "\<lparr>cs_user_id = uid, cs_course_id = cid, cs_total_score = t, cs_max_score = m,
                cs_score_percent = (if m > 0 then real_of_int t / real_of_int m * 100 else 0),
                cs_passed = ((if m > 0 then real_of_int t / real_of_int m * 100 else 0)
                               \<ge> real_of_int p),
                cs_completed_at = now\<rparr>"
  let ?db' = "db\<lparr>course_scores :=
                 filter (\<lambda>r. \<not> (cs_user_id r = uid \<and> cs_course_id r = cid)) (course_scores db)
                 @ [?new]\<rparr>"
  have save: "save_course_score db uid cid t m p now = Inr ?db'"
    by (rule save_course_score_value)
  have reach: "reachable ?db'"
    using assms save by (rule reach_save_course_score)
  have own: "filter (\<lambda>r. cs_user_id r = uid \<and> cs_course_id r = cid) (course_scores ?db') = [?new]"
    by (simp add: filter_empty_conv)
  have others: "\<forall>u c. (u, c) \<noteq> (uid, cid) \<longrightarrow>
                  filter (\<lambda>r. cs_user_id r = u \<and> cs_course_id r = c) (course_scores ?db')
                  = filter (\<lambda>r. cs_user_id r = u \<and> cs_course_id r = c) (course_scores db)"
    by (auto intro: filter_cong)
  from save reach own others
  show "\<exists>db'. save_course_score db uid cid t m p now = Inr db' \<and> reachable db'
            \<and> filter (\<lambda>r. cs_user_id r = uid \<and> cs_course_id r = cid) (course_scores db') = [?new]
            \<and> (\<forall>u c. (u, c) \<noteq> (uid, cid) \<longrightarrow>
                  filter (\<lambda>r. cs_user_id r = u \<and> cs_course_id r = c) (course_scores db')
                  = filter (\<lambda>r. cs_user_id r = u \<and> cs_course_id r = c) (course_scores db))"
    by blast
qed

theorem course_scores_one_row_per_pair_witness:
  "reachable db_scored
   \<and> length (filter (\<lambda>r. cs_user_id r = 4 \<and> cs_course_id r = 1) (course_scores db_scored)) \<le> 1
   \<and> save_course_score db_scored 4 1 40 40 70 9000
       = Inr (db_scored\<lparr>course_scores :=
                [\<lparr>cs_user_id = 4, cs_course_id = 1, cs_total_score = 40, cs_max_score = 40,
                  cs_score_percent = 100, cs_passed = True, cs_completed_at = 9000\<rparr>]\<rparr>)"
proof -
  have first: "save_course_score init_database 4 1 20 40 70 5000 = Inr db_scored"
    by (simp add: save_course_score_value db_scored_def init_database_def)
  have reach: "reachable db_scored"
    using reach_init first by (rule reach_save_course_score)
  have second: "save_course_score db_scored 4 1 40 40 70 9000
       = Inr (db_scored\<lparr>course_scores :=
                [\<lparr>cs_user_id = 4, cs_course_id = 1, cs_total_score = 40, cs_max_score = 40,
                  cs_score_percent = 100, cs_passed = True, cs_completed_at = 9000\<rparr>]\<rparr>)"
    by (simp add: save_course_score_value db_scored_def init_database_def)
  note inv = course_scores_one_row_per_pair [OF reach, of 4 1 40 40 70 9000, THEN conjunct1]
  have one: "length (filter (\<lambda>r. cs_user_id r = 4 \<and> cs_course_id r = 1) (course_scores db_scored)) \<le> 1"
    by (rule inv [THEN spec, THEN spec])
  show ?thesis
    by (intro conjI reach one second)
qed

section \<open>submit\_quiz: exact-set scoring\<close>

lemma missing_or_extra_differs:
  "(c \<in> A \<and> S = A - {c}) \<or> (c \<notin> A \<and> S = insert c A) \<Longrightarrow> S \<noteq> A"
  by auto

lemma sample_first_submit:
  "submit_quiz cfg3 5000 [q1, q2] (db_sample, ss_sample) = Inr (db_submitted, ss_submitted)"
  by code_simp

lemma sample_second_submit:
  "submit_quiz cfg3 9000 [q1, q2] (db_submitted, ss_submitted) = Inr (db_resubmitted, ss_submitted)"
  by code_simp

text \<open>
  C3. With \<open>p\<close> points per question, \<open>submit_quiz\<close> stores one row per question
  whose \<open>is_correct\<close> holds exactly when the set of selected letters equals the set
  of correct letters, and whose \<open>score_earned\<close> is \<open>p\<close> in that case and 0 otherwise;
  the total is \<open>p\<close> times the number of such questions. In particular a selection that
  misses one correct letter, or has one letter too many, is stored as incorrect with
  0 points.
\<close>

theorem exact_set_scoring:
  assumes "get_points_per_question cfg = Inr p"
  shows "\<exists>db' ss'. submit_quiz cfg now qs (db, ss) = Inr (db', ss')
     \<and> quiz_results db' = quiz_results db @
          map (\<lambda>q. \<lparr>qr_user_id = ss_user_id ss, qr_course_id = current_course_id ss,
                     qr_question_id = q_id q, qr_selected_answers = get_selected ss q,
                     qr_is_correct = (set (get_selected ss q) = set (correct_answers q)),
                     qr_score_earned =
                       (if set (get_selected ss q) = set (correct_answers q) then p else 0)\<rparr>) qs
     \<and> result_score ss'
          = p * int (length (filter (\<lambda>q. set (get_selected ss q) = set (correct_answers q)) qs))
     \<and> result_correct ss'
          = length (filter (\<lambda>q. set (get_selected ss q) = set (correct_answers q)) qs)
     \<and> (\<forall>i<length qs. \<forall>c.
           (c \<in> set (correct_answers (qs ! i))
              \<and> set (get_selected ss (qs ! i)) = set (correct_answers (qs ! i)) - {c})
           \<or> (c \<notin> set (correct_answers (qs ! i))
              \<and> set (get_selected ss (qs ! i)) = insert c (set (correct_answers (qs ! i))))
           \<longrightarrow> \<not> qr_is_correct (quiz_results db' ! (length (quiz_results db) + i))
               \<and> qr_score_earned (quiz_results db' ! (length (quiz_results db) + i)) = 0)"
proof -
  from assms have v: "get_points_per_question cfg = Inr p \<or> qs = []" by simp
  note eq = submit_quiz_value [OF v, of now db ss]
  show ?thesis
  proof (intro exI conjI)
    show "submit_quiz cfg now qs (db, ss) = Inr (fst (projr (submit_quiz cfg now qs (db, ss))),
            snd (projr (submit_quiz cfg now qs (db, ss))))"
      by (simp add: eq)
    show "quiz_results (fst (projr (submit_quiz cfg now qs (db, ss)))) = quiz_results db @
          map (\<lambda>q. \<lparr>qr_user_id = ss_user_id ss, qr_course_id = current_course_id ss,
                     qr_question_id = q_id q, qr_selected_answers = get_selected ss q,
                     qr_is_correct = (set (get_selected ss q) = set (correct_answers q)),
                     qr_score_earned =
                       (if set (get_selected ss q) = set (correct_answers q) then p else 0)\<rparr>) qs"
      by (simp add: eq)
    then have rows: "\<And>i. i < length qs \<Longrightarrow>
        quiz_results (fst (projr (submit_quiz cfg now qs (db, ss)))) ! (length (quiz_results db) + i)
        = \<lparr>qr_user_id = ss_user_id ss, qr_course_id = current_course_id ss,
            qr_question_id = q_id (qs ! i), qr_selected_answers = get_selected ss (qs ! i),
            qr_is_correct = (set (get_selected ss (qs ! i)) = set (correct_answers (qs ! i))),
            qr_score_earned =
              (if set (get_selected ss (qs ! i)) = set (correct_answers (qs ! i)) then p else 0)\<rparr>"
      by (simp add: nth_append)
    show "result_score (snd (projr (submit_quiz cfg now qs (db, ss))))
          = p * int (length (filter (\<lambda>q. set (get_selected ss q) = set (correct_answers q)) qs))"
      by (simp add: eq)
    show "result_correct (snd (projr (submit_quiz cfg now qs (db, ss))))
          = length (filter (\<lambda>q. set (get_selected ss q) = set (correct_answers q)) qs)"
      by (simp add: eq)
    show "\<forall>i<length qs. \<forall>c.
           (c \<in> set (correct_answers (qs ! i))
              \<and> set (get_selected ss (qs ! i)) = set (correct_answers (qs ! i)) - {c})
           \<or> (c \<notin> set (correct_answers (qs ! i))
              \<and> set (get_selected ss (qs ! i)) = insert c (set (correct_answers (qs ! i))))
           \<longrightarrow> \<not> qr_is_correct (quiz_results (fst (projr (submit_quiz cfg now qs (db, ss))))
                                   ! (length (quiz_results db) + i))
               \<and> qr_score_earned (quiz_results (fst (projr (submit_quiz cfg now qs (db, ss))))
                                   ! (length (quiz_results db) + i)) = 0"
    proof (intro allI impI)
      fix i c
      assume i: "i < length qs"
        and d: "(c \<in> set (correct_answers (qs ! i))
              \<and> set (get_selected ss (qs ! i)) = set (correct_answers (qs ! i)) - {c})
           \<or> (c \<notin> set (correct_answers (qs ! i))
              \<and> set (get_selected ss (qs ! i)) = insert c (set (correct_answers (qs ! i))))"
      from d have "set (get_selected ss (qs ! i)) \<noteq> set (correct_answers (qs ! i))"
        by (rule missing_or_extra_differs)
      then show "\<not> qr_is_correct (quiz_results (fst (projr (submit_quiz cfg now qs (db, ss))))
                                   ! (length (quiz_results db) + i))
               \<and> qr_score_earned (quiz_results (fst (projr (submit_quiz cfg now qs (db, ss))))
                                   ! (length (quiz_results db) + i)) = 0"
        by (simp add: rows [OF i])
    qed
  qed
qed

theorem exact_set_scoring_witness:
  "get_points_per_question cfg3 = Inr 20
   \<and> submit_quiz cfg3 5000 [q1, q2] (db_sample, ss_sample) = Inr (db_submitted, ss_submitted)
   \<and> quiz_results db_submitted = quiz_results db_sample @ [row1, row2]
   \<and> qr_is_correct row1 \<and> qr_score_earned row1 = 20
   \<and> ascii ''B'' \<in> set (correct_answers q2)
   \<and> set (get_selected ss_sample q2) = set (correct_answers q2) - {ascii ''B''}
   \<and> \<not> qr_is_correct (quiz_results db_submitted ! (length (quiz_results db_sample) + 1))
   \<and> qr_score_earned (quiz_results db_submitted ! (length (quiz_results db_sample) + 1)) = 0
   \<and> result_score ss_submitted = 20"
proof -
  have pts: "get_points_per_question cfg3 = Inr 20"
    by (simp add: get_points_per_question_def cfg3_def)
  have missing: "ascii ''B'' \<in> set (correct_answers q2)
      \<and> set (get_selected ss_sample q2) = set (correct_answers q2) - {ascii ''B''}"
    by (auto simp: q2_def ss_sample_def get_selected_def ascii_def)
  from exact_set_scoring [OF pts, of 5000 "[q1, q2]" db_sample ss_sample]
  obtain db' ss' where
    sub: "submit_quiz cfg3 5000 [q1, q2] (db_sample, ss_sample) = Inr (db', ss')"
    and part: "\<forall>i<length [q1, q2]. \<forall>c.
           (c \<in> set (correct_answers ([q1, q2] ! i))
              \<and> set (get_selected ss_sample ([q1, q2] ! i)) = set (correct_answers ([q1, q2] ! i)) - {c})
           \<or> (c \<notin> set (correct_answers ([q1, q2] ! i))
              \<and> set (get_selected ss_sample ([q1, q2] ! i)) = insert c (set (correct_answers ([q1, q2] ! i))))
           \<longrightarrow> \<not> qr_is_correct (quiz_results db' ! (length (quiz_results db_sample) + i))
               \<and> qr_score_earned (quiz_results db' ! (length (quiz_results db_sample) + i)) = 0"
    by (elim exE conjE)
  from sub sample_first_submit have same: "db' = db_submitted" by simp
  from part [THEN spec, of 1, THEN mp, THEN spec, of "ascii ''B''", THEN mp] missing
  have zero: "\<not> qr_is_correct (quiz_results db_submitted ! (length (quiz_results db_sample) + 1))
      \<and> qr_score_earned (quiz_results db_submitted ! (length (quiz_results db_sample) + 1)) = 0"
    by (simp add: same)
  have rest: "quiz_results db_submitted = quiz_results db_sample @ [row1, row2]"
    "qr_is_correct row1" "qr_score_earned row1 = 20" "result_score ss_submitted = 20"
    by (simp_all add: db_submitted_def db_sample_def init_database_def row1_def ss_submitted_def)
  show ?thesis
    by (intro conjI pts sample_first_submit rest missing [THEN conjunct1]
          missing [THEN conjunct2] zero [THEN conjunct1] zero [THEN conjunct2])
qed

section \<open>The score percentage\<close>

lemma submit_quiz_Inr_cases:
  assumes "submit_quiz cfg now qs s = Inr r"
  shows "\<exists>p. get_points_per_question cfg = Inr p \<or> qs = []"
proof (cases "get_points_per_question cfg")
  case (Inr p)
  then show ?thesis by blast
next
  case (Inl e)
  show ?thesis
  proof (cases qs)
    case Nil
    then show ?thesis by simp
  next
    case (Cons q qs')
    with Inl assms show ?thesis
      by (simp add: submit_quiz_def grade_questions_KeyError)
  qed
qed

lemma stored_percent_save_course_score:
  "\<exists>db'. save_course_score db uid cid t m p now = Inr db'
      \<and> map_option cs_score_percent (get_user_course_score db' uid cid)
          = Some (if m > 0 then real_of_int t / real_of_int m * 100 else 0)"
proof -
  let ?P = "\<lambda>r. cs_user_id r = uid \<and> cs_course_id r = cid"
  let ?new = "\<lparr>cs_user_id = uid, cs_course_id = cid, cs_total_score = t, cs_max_score = m,
                cs_score_percent = (if m > 0 then real_of_int t / real_of_int m * 100 else 0),
                cs_passed = ((if m > 0 then real_of_int t / real_of_int m * 100 else 0)
                               \<ge> real_of_int p),
                cs_completed_at = now\<rparr>"
  let ?db' = "db\<lparr>course_scores := filter (\<lambda>r. \<not> ?P r) (course_scores db) @ [?new]\<rparr>"
  have save: "save_course_score db uid cid t m p now = Inr ?db'"
    by (rule save_course_score_value)
  have "find ?P (filter (\<lambda>r. \<not> ?P r) (course_scores db) @ [?new]) = Some ?new"
    by (rule find_after_upsert) simp
  then have "map_option cs_score_percent (get_user_course_score ?db' uid cid)
          = Some (if m > 0 then real_of_int t / real_of_int m * 100 else 0)"
    by (simp add: get_user_course_score_def)
  with save show ?thesis by blast
qed

lemma stored_percent_submit_quiz:
  assumes "submit_quiz cfg now qs (db, ss) = Inr (db', ss')"
  shows "result_percent ss'
           = (if result_max_score ss' > 0
              then real_of_int (result_score ss') / real_of_int (result_max_score ss') * 100
              else 0)
       \<and> map_option cs_score_percent
           (get_user_course_score db' (ss_user_id ss) (current_course_id ss))
           = Some (result_percent ss')"
proof -
  from submit_quiz_Inr_cases [OF assms] obtain p
    where v: "get_points_per_question cfg = Inr p \<or> qs = []" by blast
  let ?n = "length (filter (\<lambda>q. set (get_selected ss q) = set (correct_answers q)) qs)"
  let ?pct = "if p * int (length qs) > 0
              then real_of_int (p * int ?n) / real_of_int (p * int (length qs)) * 100
              else 0"
  let ?P = "\<lambda>r. cs_user_id r = ss_user_id ss \<and> cs_course_id r = current_course_id ss"
  let ?new = "\<lparr>cs_user_id = ss_user_id ss, cs_course_id = current_course_id ss,
                cs_total_score = p * int ?n, cs_max_score = p * int (length qs),
                cs_score_percent = ?pct,
                cs_passed = (?pct \<ge> real_of_int (passing_score ss)),
                cs_completed_at = now\<rparr>"
  have db': "db' = fst (projr (submit_quiz cfg now qs (db, ss)))"
    and ss': "ss' = snd (projr (submit_quiz cfg now qs (db, ss)))"
    using assms by simp_all
  have fields: "result_percent ss' = ?pct" "result_score ss' = p * int ?n"
    "result_max_score ss' = p * int (length qs)"
    unfolding ss' submit_quiz_value [OF v] by simp_all
  have scores: "course_scores db' = filter (\<lambda>r. \<not> ?P r) (course_scores db) @ [?new]"
    unfolding db' submit_quiz_value [OF v] by simp
  have "find ?P (course_scores db') = Some ?new"
    unfolding scores by (rule find_after_upsert) simp
  then have stored: "map_option cs_score_percent
      (get_user_course_score db' (ss_user_id ss) (current_course_id ss)) = Some ?pct"
    by (simp add: get_user_course_score_def)
  show ?thesis
    unfolding fields stored by simp
qed

text \<open>
  C7. The percentage is \<open>total_score / max_score * 100\<close> when \<open>max_score > 0\<close> and 0
  otherwise, in particular for \<open>max_score = 0\<close>. \<open>save_course_score\<close> always returns
  a database, and the row it stores for the pair carries this percentage.
  \<open>submit_quiz\<close> never ends in \<open>ZeroDivisionError\<close>, an empty question set gives
  maximum 0 and percentage 0, and whenever \<open>submit_quiz\<close> returns, the percentage it
  reports is this function of the total and the maximum it reports and is the
  percentage of the stored row.
\<close>

theorem score_percent_no_division_error:
  "score_percent t m = Inr (if m > 0 then real_of_int t / real_of_int m * 100 else 0)
   \<and> score_percent t 0 = Inr 0
   \<and> (\<exists>db'. save_course_score db uid cid t m p now = Inr db'
         \<and> map_option cs_score_percent (get_user_course_score db' uid cid)
             = Some (if m > 0 then real_of_int t / real_of_int m * 100 else 0))
   \<and> submit_quiz cfg now qs s \<noteq> Inl ZeroDivisionError
   \<and> (\<exists>db' ss'. submit_quiz cfg now [] (db, ss) = Inr (db', ss')
         \<and> result_max_score ss' = 0 \<and> result_percent ss' = 0)
   \<and> (\<forall>db' ss'. submit_quiz cfg now qs (db, ss) = Inr (db', ss') \<longrightarrow>
         result_percent ss'
           = (if result_max_score ss' > 0
              then real_of_int (result_score ss') / real_of_int (result_max_score ss') * 100
              else 0)
         \<and> map_option cs_score_percent
             (get_user_course_score db' (ss_user_id ss) (current_course_id ss))
             = Some (result_percent ss'))"
proof (intro conjI allI impI)
  show "score_percent t m = Inr (if m > 0 then real_of_int t / real_of_int m * 100 else 0)"
    by (rule score_percent_value)
  show "score_percent t 0 = Inr 0"
    by (simp add: score_percent_value)
  show "\<exists>db'. save_course_score db uid cid t m p now = Inr db'
         \<and> map_option cs_score_percent (get_user_course_score db' uid cid)
             = Some (if m > 0 then real_of_int t / real_of_int m * 100 else 0)"
    by (rule stored_percent_save_course_score)
  show "submit_quiz cfg now qs s \<noteq> Inl ZeroDivisionError"
    using submit_quiz_error [of cfg now qs s ZeroDivisionError] by auto
  have e: "get_points_per_question cfg = Inr 0 \<or> ([]::question list) = []" by simp
  show "\<exists>db' ss'. submit_quiz cfg now [] (db, ss) = Inr (db', ss')
         \<and> result_max_score ss' = 0 \<and> result_percent ss' = 0"
    unfolding submit_quiz_value [OF e] by simp
next
  fix db' ss'
  assume a: "submit_quiz cfg now qs (db, ss) = Inr (db', ss')"
  show "result_percent ss'
           = (if result_max_score ss' > 0
              then real_of_int (result_score ss') / real_of_int (result_max_score ss') * 100
              else 0)"
    by (rule stored_percent_submit_quiz [OF a, THEN conjunct1])
  show "map_option cs_score_percent
             (get_user_course_score db' (ss_user_id ss) (current_course_id ss))
             = Some (result_percent ss')"
    by (rule stored_percent_submit_quiz [OF a, THEN conjunct2])
qed

theorem score_percent_no_division_error_witness:
  "score_percent 140 200 = Inr 70
   \<and> score_percent 0 0 = Inr 0
   \<and> (\<exists>db'. save_course_score db_sample 4 1 140 200 70 5000 = Inr db'
         \<and> map_option cs_score_percent (get_user_course_score db' 4 1) = Some 70)
   \<and> (\<exists>db'. save_course_score db_sample 4 1 0 0 70 5000 = Inr db'
         \<and> map_option cs_score_percent (get_user_course_score db' 4 1) = Some 0)
   \<and> submit_quiz cfg3 5000 [] (db_sample, ss_sample) \<noteq> Inl ZeroDivisionError
   \<and> submit_quiz cfg3 5000 [q1, q2] (db_sample, ss_sample) = Inr (db_submitted, ss_submitted)
   \<and> result_percent ss_submitted = 50
   \<and> map_option cs_score_percent (get_user_course_score db_submitted 4 1) = Some 50"
proof -
  note t1 = score_percent_no_division_error
              [where t = 140 and m = 200 and cfg = cfg3 and now = 5000 and db = db_sample
                 and uid = 4 and cid = 1 and p = 70
                 and qs = "[]" and s = "(db_sample, ss_sample)"]
  note t2 = score_percent_no_division_error
              [where t = 0 and m = 0 and db = db_sample and uid = 4 and cid = 1 and p = 70
                 and now = 5000]
  note t3 = score_percent_no_division_error
              [where cfg = cfg3 and now = 5000 and qs = "[q1, q2]" and db = db_sample
                 and ss = ss_sample]
  have a: "score_percent 140 200 = Inr 70"
    using t1 [THEN conjunct1] by simp
  have b: "score_percent 0 0 = Inr 0"
    by (rule t2 [THEN conjunct2, THEN conjunct1])
  have c1: "\<exists>db'. save_course_score db_sample 4 1 140 200 70 5000 = Inr db'
         \<and> map_option cs_score_percent (get_user_course_score db' 4 1) = Some 70"
    using t1 [THEN conjunct2, THEN conjunct2, THEN conjunct1] by simp
  have c2: "\<exists>db'. save_course_score db_sample 4 1 0 0 70 5000 = Inr db'
         \<and> map_option cs_score_percent (get_user_course_score db' 4 1) = Some 0"
    using t2 [THEN conjunct2, THEN conjunct2, THEN conjunct1] by simp
  have d: "submit_quiz cfg3 5000 [] (db_sample, ss_sample) \<noteq> Inl ZeroDivisionError"
    by (rule t1 [THEN conjunct2, THEN conjunct2, THEN conjunct2, THEN conjunct1])
  have ids: "ss_user_id ss_sample = 4" "current_course_id ss_sample = 1"
    by (simp_all add: ss_sample_def)
  have pct: "result_percent ss_submitted = 50"
    by (simp add: ss_submitted_def)
  from t3 [THEN conjunct2, THEN conjunct2, THEN conjunct2, THEN conjunct2, THEN conjunct2,
           THEN spec, THEN spec, THEN mp, OF sample_first_submit, THEN conjunct2]
  have e: "map_option cs_score_percent (get_user_course_score db_submitted 4 1) = Some 50"
    by (simp add: ids pct)
  show ?thesis
    by (intro conjI a b c1 c2 d sample_first_submit pct e)
qed

section \<open>submit\_quiz called again\<close>

text \<open>
  C5, as the claim states it, fails: \<open>submit_quiz\<close> has no record of an earlier
  submission. On the sample session the second call stores the two rows of the
  questions a second time and replaces the course score by a row with a new
  \<open>completed_at\<close>.
\<close>

theorem second_submit_rescores:
  "submit_quiz cfg3 5000 [q1, q2] (db_sample, ss_sample) = Inr (db_submitted, ss_submitted)
   \<and> submit_quiz cfg3 9000 [q1, q2] (db_submitted, ss_submitted) = Inr (db_resubmitted, ss_submitted)
   \<and> quiz_results db_submitted = [row1, row2]
   \<and> quiz_results db_resubmitted = [row1, row2, row1, row2]
   \<and> map cs_completed_at (course_scores db_submitted) = [5000]
   \<and> map cs_completed_at (course_scores db_resubmitted) = [9000]"
  by (intro conjI sample_first_submit sample_second_submit)
     (simp_all add: db_submitted_def db_resubmitted_def)

text \<open>
  C5, as the code has it. After a submission that returned, a second call of
  \<open>submit_quiz\<close> with the same questions and configuration returns as well: it scores
  the answers again and arrives at the same session state, it appends the same row for
  every question once more, and it replaces the course score of the pair by a row that
  differs from the stored one in \<open>completed_at\<close> only; the pair still has one row.
\<close>

theorem resubmit_rescoring:
  assumes first: "submit_quiz cfg now1 qs (db, ss) = Inr (db1, ss1)"
  shows "\<exists>db2. submit_quiz cfg now2 qs (db1, ss1) = Inr (db2, ss1)
      \<and> quiz_results db2 = quiz_results db1 @ drop (length (quiz_results db)) (quiz_results db1)
      \<and> length (quiz_results db2) = length (quiz_results db1) + length qs
      \<and> get_user_course_score db1 (ss_user_id ss) (current_course_id ss) \<noteq> None
      \<and> get_user_course_score db2 (ss_user_id ss) (current_course_id ss)
          = map_option (\<lambda>r. r\<lparr>cs_completed_at := now2\<rparr>)
              (get_user_course_score db1 (ss_user_id ss) (current_course_id ss))
      \<and> length (filter (\<lambda>r. cs_user_id r = ss_user_id ss \<and> cs_course_id r = current_course_id ss)
                  (course_scores db2)) = 1"
proof -
  from submit_quiz_Inr_cases [OF first] obtain p
    where v: "get_points_per_question cfg = Inr p \<or> qs = []" by blast
  have db1: "db1 = fst (projr (submit_quiz cfg now1 qs (db, ss)))"
    and ss1: "ss1 = snd (projr (submit_quiz cfg now1 qs (db, ss)))"
    using first by simp_all
  have sel: "\<And>q. get_selected ss1 q = get_selected ss q"
    unfolding ss1 submit_quiz_value [OF v] by (simp add: get_selected_def)
  have ids: "ss_user_id ss1 = ss_user_id ss" "current_course_id ss1 = current_course_id ss"
    "passing_score ss1 = passing_score ss"
    unfolding ss1 submit_quiz_value [OF v] by simp_all
  have again: "ss1\<lparr>current_page := ascii ''result'',
             result_score := p * int (length (filter (\<lambda>q. set (get_selected ss q) = set (correct_answers q)) qs)),
             result_max_score := p * int (length qs),
             result_percent :=
               (if p * int (length qs) > 0
                then real_of_int (p * int (length (filter (\<lambda>q. set (get_selected ss q) = set (correct_answers q)) qs)))
                       / real_of_int (p * int (length qs)) * 100
                else 0),
             result_passed :=
               ((if p * int (length qs) > 0
                 then real_of_int (p * int (length (filter (\<lambda>q. set (get_selected ss q) = set (correct_answers q)) qs)))
                        / real_of_int (p * int (length qs)) * 100
                 else 0) \<ge> real_of_int (passing_score ss)),
             result_correct := length (filter (\<lambda>q. set (get_selected ss q) = set (correct_answers q)) qs),
             result_total := length qs\<rparr> = ss1"
    unfolding ss1 submit_quiz_value [OF v] by simp
  have rows1: "quiz_results db1 = quiz_results db @
          map (\<lambda>q. \<lparr>qr_user_id = ss_user_id ss, qr_course_id = current_course_id ss,
                     qr_question_id = q_id q, qr_selected_answers = get_selected ss q,
                     qr_is_correct = (set (get_selected ss q) = set (correct_answers q)),
                     qr_score_earned =
                       (if set (get_selected ss q) = set (correct_answers q) then p else 0)\<rparr>) qs"
    unfolding db1 submit_quiz_value [OF v] by simp
  have scores1: "course_scores db1 =
      filter (\<lambda>r. \<not> (cs_user_id r = ss_user_id ss \<and> cs_course_id r = current_course_id ss))
        (course_scores db)
      @ [\<lparr>cs_user_id = ss_user_id ss, cs_course_id = current_course_id ss,
          cs_total_score = p * int (length (filter (\<lambda>q. set (get_selected ss q) = set (correct_answers q)) qs)),
          cs_max_score = p * int (length qs),
          cs_score_percent =
            (if p * int (length qs) > 0
             then real_of_int (p * int (length (filter (\<lambda>q. set (get_selected ss q) = set (correct_answers q)) qs)))
                    / real_of_int (p * int (length qs)) * 100
             else 0),
          cs_passed =
            ((if p * int (length qs) > 0
              then real_of_int (p * int (length (filter (\<lambda>q. set (get_selected ss q) = set (correct_answers q)) qs)))
                     / real_of_int (p * int (length qs)) * 100
              else 0) \<ge> real_of_int (passing_score ss)),
          cs_completed_at = now1\<rparr>]"
    unfolding db1 submit_quiz_value [OF v] by simp
  note second = submit_quiz_value [OF v, of now2 db1 ss1, unfolded sel ids again]
  show ?thesis
  proof (intro exI conjI)
    show "submit_quiz cfg now2 qs (db1, ss1)
            = Inr (fst (projr (submit_quiz cfg now2 qs (db1, ss1))), ss1)"
      by (simp add: second)
    show "quiz_results (fst (projr (submit_quiz cfg now2 qs (db1, ss1))))
            = quiz_results db1 @ drop (length (quiz_results db)) (quiz_results db1)"
      by (simp add: second rows1)
    show "length (quiz_results (fst (projr (submit_quiz cfg now2 qs (db1, ss1)))))
            = length (quiz_results db1) + length qs"
      by (simp add: second)
    let ?P = "\<lambda>r. cs_user_id r = ss_user_id ss \<and> cs_course_id r = current_course_id ss"
    let ?new = "\<lambda>t. \<lparr>cs_user_id = ss_user_id ss, cs_course_id = current_course_id ss,
          cs_total_score = p * int (length (filter (\<lambda>q. set (get_selected ss q) = set (correct_answers q)) qs)),
          cs_max_score = p * int (length qs),
          cs_score_percent =
            (if p * int (length qs) > 0
             then real_of_int (p * int (length (filter (\<lambda>q. set (get_selected ss q) = set (correct_answers q)) qs)))
                    / real_of_int (p * int (length qs)) * 100
             else 0),
          cs_passed =
            ((if p * int (length qs) > 0
              then real_of_int (p * int (length (filter (\<lambda>q. set (get_selected ss q) = set (correct_answers q)) qs)))
                     / real_of_int (p * int (length qs)) * 100
              else 0) \<ge> real_of_int (passing_score ss)),
          cs_completed_at = t\<rparr>"
    have scores2: "course_scores (fst (projr (submit_quiz cfg now2 qs (db1, ss1))))
        = filter (\<lambda>r. \<not> ?P r) (course_scores db1) @ [?new now2]"
      by (simp add: second)
    have f1: "find ?P (course_scores db1) = Some (?new now1)"
      unfolding scores1 by (rule find_after_upsert) simp
    have f2: "find ?P (course_scores (fst (projr (submit_quiz cfg now2 qs (db1, ss1)))))
                = Some (?new now2)"
      unfolding scores2 by (rule find_after_upsert) simp
    show "get_user_course_score db1 (ss_user_id ss) (current_course_id ss) \<noteq> None"
      unfolding get_user_course_score_def f1 by simp
    show "get_user_course_score (fst (projr (submit_quiz cfg now2 qs (db1, ss1))))
            (ss_user_id ss) (current_course_id ss)
          = map_option (\<lambda>r. r\<lparr>cs_completed_at := now2\<rparr>)
              (get_user_course_score db1 (ss_user_id ss) (current_course_id ss))"
      unfolding get_user_course_score_def f1 f2 by simp
    show "length (filter (\<lambda>r. cs_user_id r = ss_user_id ss \<and> cs_course_id r = current_course_id ss)
                  (course_scores (fst (projr (submit_quiz cfg now2 qs (db1, ss1)))))) = 1"
      by (simp add: second filter_empty_conv)
  qed
qed

theorem resubmit_rescoring_witness:
  "submit_quiz cfg3 5000 [q1, q2] (db_sample, ss_sample) = Inr (db_submitted, ss_submitted)
   \<and> submit_quiz cfg3 9000 [q1, q2] (db_submitted, ss_submitted) = Inr (db_resubmitted, ss_submitted)
   \<and> length (quiz_results db_resubmitted) = length (quiz_results db_submitted) + 2
   \<and> get_user_course_score db_resubmitted 4 1
       = map_option (\<lambda>r. r\<lparr>cs_completed_at := 9000\<rparr>) (get_user_course_score db_submitted 4 1)"
proof -
  have ids: "ss_user_id ss_sample = 4" "current_course_id ss_sample = 1"
    by (simp_all add: ss_sample_def)
  from resubmit_rescoring [OF sample_first_submit, of 9000]
  obtain db2 where
    a: "submit_quiz cfg3 9000 [q1, q2] (db_submitted, ss_submitted) = Inr (db2, ss_submitted)"
    and b: "length (quiz_results db2) = length (quiz_results db_submitted) + length [q1, q2]"
    and c: "get_user_course_score db2 (ss_user_id ss_sample) (current_course_id ss_sample)
          = map_option (\<lambda>r. r\<lparr>cs_completed_at := 9000\<rparr>)
              (get_user_course_score db_submitted (ss_user_id ss_sample) (current_course_id ss_sample))"
    by (elim exE conjE)
  from a sample_second_submit have same: "db2 = db_resubmitted" by simp
  have b': "length (quiz_results db_resubmitted) = length (quiz_results db_submitted) + 2"
    using b unfolding same by simp
  have c': "get_user_course_score db_resubmitted 4 1
       = map_option (\<lambda>r. r\<lparr>cs_completed_at := 9000\<rparr>) (get_user_course_score db_submitted 4 1)"
    using c unfolding same ids .
  show ?thesis
    by (intro conjI sample_first_submit sample_second_submit b' c')
qed

end
